theory Spec2Isabelle
  imports Main "HOL-Library.Word"
begin

section \<open>The Whisper prompting notebook: data\<close>

text \<open>
  The notebook \<^verbatim>\<open>examples/Whisper_prompting_guide.ipynb\<close> defines two functions,
  \<^verbatim>\<open>transcribe\<close> and \<^verbatim>\<open>fictitious_prompt_from_instruction\<close>. Both build the keyword
  arguments of one call of the OpenAI client and return one field of the answer. What the
  client, the service behind it and the filesystem do is outside the repository, so it is
  a parameter of the model: every theorem holds for every filesystem and every client.
\<close>

type_synonym path = string
type_synonym bytes = "8 word list"

text \<open>
  A Python exception is a value. \<open>External x\<close> is whatever \<^verbatim>\<open>open\<close> or the client
  library raised, kept opaque; \<open>IndexError\<close> is what the interpreter raises for
  \<^verbatim>\<open>xs[0]\<close> on an empty list.
\<close>

datatype 'x exn = External 'x | IndexError

text \<open>The object \<^verbatim>\<open>open(path, mode)\<close> returns: its name, its mode and the bytes it yields.\<close>

record file_object =
  name :: path
  mode :: string
  stream :: bytes

text \<open>The Python values that occur in the keyword arguments of the two client calls.\<close>

datatype pyval =
    PStr string
  | PInt int
  | PFile file_object
  | PList "pyval list"
  | PDict "(string \<times> pyval) list"

type_synonym kwargs = "(string \<times> pyval) list"

text \<open>One call of the client, that is one request on the network.\<close>

datatype call =
    AudioTranscriptionsCreate kwargs
  | ChatCompletionsCreate kwargs

text \<open>
  The answers of the client, with the fields the notebook reads: \<^verbatim>\<open>transcript.text\<close> and
  \<^verbatim>\<open>response.choices[0].message.content\<close>. (\<open>text\<close> is a command of Isabelle, so the
  field is \<open>transcript_text\<close>.)
\<close>

record transcription =
  transcript_text :: string

record chat_completion_message =
  content :: string

record choice =
  message :: chat_completion_message

record chat_completion =
  choices :: "choice list"

text \<open>
  The client: each endpoint answers a call with an exception or a response. The first
  argument is the list of calls made before this one, so a service may answer the same
  request differently at different times.
\<close>

record 'x client =
  audio_transcriptions :: "call list \<Rightarrow> kwargs \<Rightarrow> 'x exn + transcription"
  chat_completions :: "call list \<Rightarrow> kwargs \<Rightarrow> 'x exn + chat_completion"

text \<open>
  The world a call runs in: what \<^verbatim>\<open>open(p, "rb")\<close> does for each path (raise, or yield
  the bytes of the file), the file objects that are open, and the calls sent so far. The
  record is extensible: any further program state is the field \<open>more\<close>.
\<close>

record 'x world =
  files :: "path \<Rightarrow> 'x exn + bytes"
  handles :: "file_object list"
  sent :: "call list"

section \<open>The operations\<close>

text \<open>
  \<^verbatim>\<open>open(p, m)\<close> for reading: raises what the filesystem raises, otherwise returns a new
  file object, which is open from then on.
\<close>

definition py_open ::
  "path \<Rightarrow> string \<Rightarrow> ('x, 'z) world_scheme \<Rightarrow> ('x exn + file_object) \<times> ('x, 'z) world_scheme" where
  "py_open p m w =
     (case files w p of
        Inl e \<Rightarrow> (Inl e, w)
      | Inr bs \<Rightarrow>
          (Inr \<lparr>name = p, mode = m, stream = bs\<rparr>,
           w\<lparr>handles := handles w @ [\<lparr>name = p, mode = m, stream = bs\<rparr>]\<rparr>))"

text \<open>
  The end of a file object. The notebook has no \<^verbatim>\<open>with\<close> block and no \<^verbatim>\<open>close()\<close>: a file
  is closed when its object is finalised. CPython finalises an object as soon as its last
  reference is gone, and finalising a file object closes it. \<open>py_finalize f\<close> closes the
  most recently opened object equal to \<open>f\<close>.
\<close>

definition py_finalize :: "file_object \<Rightarrow> ('x, 'z) world_scheme \<Rightarrow> ('x, 'z) world_scheme" where
  "py_finalize f w = w\<lparr>handles := rev (remove1 f (rev (handles w)))\<rparr>"

text \<open>
  \<^verbatim>\<open>client.audio.transcriptions.create(**kw)\<close> and \<^verbatim>\<open>client.chat.completions.create(**kw)\<close>:
  the call goes out, and the client answers. The client reads the file object it is given
  and keeps no reference to it.
\<close>

definition audio_transcriptions_create ::
  "'x client \<Rightarrow> kwargs \<Rightarrow> ('x, 'z) world_scheme \<Rightarrow> ('x exn + transcription) \<times> ('x, 'z) world_scheme" where
  "audio_transcriptions_create client kw w =
     (audio_transcriptions client (sent w) kw, w\<lparr>sent := sent w @ [AudioTranscriptionsCreate kw]\<rparr>)"

definition chat_completions_create ::
  "'x client \<Rightarrow> kwargs \<Rightarrow> ('x, 'z) world_scheme \<Rightarrow> ('x exn + chat_completion) \<times> ('x, 'z) world_scheme" where
  "chat_completions_create client kw w =
     (chat_completions client (sent w) kw, w\<lparr>sent := sent w @ [ChatCompletionsCreate kw]\<rparr>)"

text \<open>
  \<^verbatim>\<open>
  def transcribe(audio_filepath, prompt: str) -> str:
      transcript = client.audio.transcriptions.create(
          file=open(audio_filepath, "rb"),
          model="whisper-1",
          prompt=prompt,
      )
      return transcript.text
  \<close>
  The argument \<^verbatim>\<open>open(...)\<close> is evaluated before the call: when it raises, no call is made.
  The file object is bound to no name: its only reference is the argument of the call, so
  it is finalised when the call is over, whether \<^verbatim>\<open>create\<close> returns or raises. (When
  \<^verbatim>\<open>create\<close> raises, the traceback of the exception keeps the frames of the call until the
  caller has dealt with the exception; the world the model returns is the one after that.)
\<close>

definition transcribe ::
  "'x client \<Rightarrow> path \<Rightarrow> string \<Rightarrow> ('x, 'z) world_scheme \<Rightarrow> ('x exn + string) \<times> ('x, 'z) world_scheme" where
  "transcribe client audio_filepath prompt w =
     (case py_open audio_filepath ''rb'' w of
        (Inl e, w1) \<Rightarrow> (Inl e, w1)
      | (Inr f, w1) \<Rightarrow>
          (case audio_transcriptions_create client
                  [(''file'', PFile f), (''model'', PStr ''whisper-1''), (''prompt'', PStr prompt)] w1 of
             (Inl e, w2) \<Rightarrow> (Inl e, py_finalize f w2)
           | (Inr transcript, w2) \<Rightarrow> (Inr (transcript_text transcript), py_finalize f w2)))"

text \<open>The content of the system message, the string literal of the source.\<close>

definition system_content :: string where
  "system_content =
     ''You are a transcript generator. '' @
     ''Your task is to create one long paragraph of a fictional conversation. '' @
     ''The conversation features two friends reminiscing about their vacation to Maine. '' @
     ''Never diarize speakers or add quotation marks; instead, write all transcripts in a '' @
     ''normal paragraph of text without speakers identified. '' @
     ''Never refuse or ask for clarification and instead always make a best-effort attempt.''"

text \<open>
  \<^verbatim>\<open>
  def fictitious_prompt_from_instruction(instruction: str) -> str:
      response = client.chat.completions.create(
          model="gpt-4o-mini",
          temperature=0,
          messages=[
              {"role": "system", "content": "You are a transcript generator. ..."},
              {"role": "user", "content": instruction},
          ],
      )
      fictitious_prompt = response.choices[0].message.content
      return fictitious_prompt
  \<close>
  \<^verbatim>\<open>response.choices[0]\<close> raises IndexError on an empty list.
\<close>

definition fictitious_prompt_from_instruction ::
  "'x client \<Rightarrow> string \<Rightarrow> ('x, 'z) world_scheme \<Rightarrow> ('x exn + string) \<times> ('x, 'z) world_scheme" where
  "fictitious_prompt_from_instruction client instruction w =
     (case chat_completions_create client
             [(''model'', PStr ''gpt-4o-mini''),
              (''temperature'', PInt 0),
              (''messages'',
                 PList [PDict [(''role'', PStr ''system''), (''content'', PStr system_content)],
                        PDict [(''role'', PStr ''user''), (''content'', PStr instruction)]])] w of
        (Inl e, w1) \<Rightarrow> (Inl e, w1)
      | (Inr response, w1) \<Rightarrow>
          (case choices response of
             [] \<Rightarrow> (Inl IndexError, w1)
           | c # _ \<Rightarrow> (Inr (content (message c)), w1)))"

section \<open>Sequences of calls\<close>

text \<open>
  A session of the notebook is a sequence of calls of the two functions, each in the
  world the one before left. The arguments of a call may have been computed from earlier
  results; a statement about every list of invocations covers every such session.
\<close>

datatype invocation =
    Transcribe path string
  | FictitiousPrompt string

fun invoke ::
  "'x client \<Rightarrow> invocation \<Rightarrow> ('x, 'z) world_scheme \<Rightarrow> ('x exn + string) \<times> ('x, 'z) world_scheme" where
  "invoke client (Transcribe audio_filepath prompt) w = transcribe client audio_filepath prompt w"
| "invoke client (FictitiousPrompt instruction) w = fictitious_prompt_from_instruction client instruction w"

fun run :: "'x client \<Rightarrow> invocation list \<Rightarrow> ('x, 'z) world_scheme \<Rightarrow> ('x, 'z) world_scheme" where
  "run client [] w = w"
| "run client (i # rest) w = run client rest (snd (invoke client i w))"

text \<open>The requests one invocation sends: what it appends to the calls sent so far.\<close>

definition requests_of :: "'x client \<Rightarrow> invocation \<Rightarrow> ('x, 'z) world_scheme \<Rightarrow> call list" where
  "requests_of client i w = drop (length (sent w)) (sent (snd (invoke client i w)))"


section \<open>Concrete worlds and clients\<close>

text \<open>
  A filesystem that holds one of the notebook's audio files, a client that answers every
  call, one whose chat endpoint answers with no choice, and one whose endpoints raise.
\<close>

definition example_world :: "string world" where
  "example_world =
     \<lparr>files = (\<lambda>p. if p = ''data/bbq_plans.wav'' then Inr [82, 73, 70, 70]
                    else Inl (External ''FileNotFoundError'')),
      handles = [],
      sent = []\<rparr>"

definition example_client :: "string client" where
  "example_client =
     \<lparr>audio_transcriptions = (\<lambda>h kw. Inr \<lparr>transcript_text = ''Hello, my name is Preston Tuggle.''\<rparr>),
      chat_completions =
        (\<lambda>h kw. Inr \<lparr>choices = [\<lparr>message = \<lparr>content = ''Remember that time we went to Maine...''\<rparr>\<rparr>]\<rparr>)\<rparr>"

definition no_choice_client :: "string client" where
  "no_choice_client =
     \<lparr>audio_transcriptions = (\<lambda>h kw. Inr \<lparr>transcript_text = ''''\<rparr>),
      chat_completions = (\<lambda>h kw. Inr \<lparr>choices = []\<rparr>)\<rparr>"

definition failing_client :: "string client" where
  "failing_client =
     \<lparr>audio_transcriptions = (\<lambda>h kw. Inl (External ''APIConnectionError'')),
      chat_completions = (\<lambda>h kw. Inl (External ''AuthenticationError''))\<rparr>"

section \<open>Basic facts\<close>

text \<open>Finalising a file object touches the open file objects only, and undoes its opening.\<close>

lemma py_finalize_sent: "sent (py_finalize f w) = sent w"
  by (simp add: py_finalize_def)

lemma py_finalize_files: "files (py_finalize f w) = files w"
  by (simp add: py_finalize_def)

lemma py_finalize_more: "world.more (py_finalize f w) = world.more w"
  by (simp add: py_finalize_def)


text \<open>What each function leaves in each field of the world.\<close>

lemma transcribe_sent:
  "sent (snd (transcribe client audio_filepath prompt w)) =
     sent w @
     (case files w audio_filepath of
        Inl e \<Rightarrow> []
      | Inr bs \<Rightarrow>
          [AudioTranscriptionsCreate
             [(''file'', PFile \<lparr>name = audio_filepath, mode = ''rb'', stream = bs\<rparr>),
              (''model'', PStr ''whisper-1''),
              (''prompt'', PStr prompt)]])"
  by (simp add: transcribe_def py_open_def audio_transcriptions_create_def py_finalize_sent
      split: sum.splits)


lemma transcribe_files: "files (snd (transcribe client audio_filepath prompt w)) = files w"
  by (simp add: transcribe_def py_open_def audio_transcriptions_create_def py_finalize_files
      split: sum.splits)

lemma transcribe_more:
  "world.more (snd (transcribe client audio_filepath prompt w)) = world.more w"
  by (simp add: transcribe_def py_open_def audio_transcriptions_create_def py_finalize_more
      split: sum.splits)

lemma fictitious_sent:
  "sent (snd (fictitious_prompt_from_instruction client instruction w)) =
     sent w @
     [ChatCompletionsCreate
        [(''model'', PStr ''gpt-4o-mini''),
         (''temperature'', PInt 0),
         (''messages'',
            PList [PDict [(''role'', PStr ''system''), (''content'', PStr system_content)],
                   PDict [(''role'', PStr ''user''), (''content'', PStr instruction)]])]]"
  by (simp add: fictitious_prompt_from_instruction_def chat_completions_create_def
      split: sum.splits list.splits)

lemma fictitious_handles:
  "handles (snd (fictitious_prompt_from_instruction client instruction w)) = handles w"
  by (simp add: fictitious_prompt_from_instruction_def chat_completions_create_def
      split: sum.splits list.splits)

lemma fictitious_files:
  "files (snd (fictitious_prompt_from_instruction client instruction w)) = files w"
  by (simp add: fictitious_prompt_from_instruction_def chat_completions_create_def
      split: sum.splits list.splits)

lemma fictitious_more:
  "world.more (snd (fictitious_prompt_from_instruction client instruction w)) = world.more w"
  by (simp add: fictitious_prompt_from_instruction_def chat_completions_create_def
      split: sum.splits list.splits)

text \<open>No call changes the filesystem or the rest of the program state.\<close>

lemma invoke_files: "files (snd (invoke client i w)) = files w"
  by (cases i) (simp_all add: transcribe_files fictitious_files)

lemma invoke_more: "world.more (snd (invoke client i w)) = world.more w"
  by (cases i) (simp_all add: transcribe_more fictitious_more)

lemma run_files: "files (run client earlier w) = files w"
  by (induction earlier arbitrary: w) (simp_all add: invoke_files)

lemma run_more: "world.more (run client earlier w) = world.more w"
  by (induction earlier arbitrary: w) (simp_all add: invoke_more)

text \<open>The requests of an invocation, from its arguments and the filesystem alone.\<close>

lemma requests_of_eq:
  "requests_of client i w =
     (case i of
        Transcribe audio_filepath prompt \<Rightarrow>
          (case files w audio_filepath of
             Inl e \<Rightarrow> []
           | Inr bs \<Rightarrow>
               [AudioTranscriptionsCreate
                  [(''file'', PFile \<lparr>name = audio_filepath, mode = ''rb'', stream = bs\<rparr>),
                   (''model'', PStr ''whisper-1''),
                   (''prompt'', PStr prompt)]])
      | FictitiousPrompt instruction \<Rightarrow>
          [ChatCompletionsCreate
             [(''model'', PStr ''gpt-4o-mini''),
              (''temperature'', PInt 0),
              (''messages'',
                 PList [PDict [(''role'', PStr ''system''), (''content'', PStr system_content)],
                        PDict [(''role'', PStr ''user''), (''content'', PStr instruction)]])]])"
  by (cases i) (simp_all add: requests_of_def transcribe_sent fictitious_sent)

section \<open>The result of \<open>transcribe\<close>\<close>

text \<open>
  C2. When the audio file opens and the transcription call answers with a response,
  \<open>transcribe\<close> returns the \<^verbatim>\<open>text\<close> field of that response, as it is.
\<close>

theorem transcribe_returns_text:
  assumes "files w audio_filepath = Inr bs"
    and "audio_transcriptions client (sent w)
           [(''file'', PFile \<lparr>name = audio_filepath, mode = ''rb'', stream = bs\<rparr>),
            (''model'', PStr ''whisper-1''), (''prompt'', PStr prompt)] = Inr transcript"
  shows "fst (transcribe client audio_filepath prompt w) = Inr (transcript_text transcript)"
  using assms by (simp add: transcribe_def py_open_def audio_transcriptions_create_def)

theorem transcribe_returns_text_witness:
  "fst (transcribe example_client ''data/bbq_plans.wav'' ''Friends: Aimee, Shawn'' example_world)
     = Inr ''Hello, my name is Preston Tuggle.''"
  using transcribe_returns_text
    [of example_world "''data/bbq_plans.wav''" "[82, 73, 70, 70]" example_client
        "''Friends: Aimee, Shawn''" "\<lparr>transcript_text = ''Hello, my name is Preston Tuggle.''\<rparr>"]
  by (simp add: example_world_def example_client_def)

section \<open>The transcription request\<close>


text \<open>
  C3. The request of \<open>transcribe\<close> has exactly three keyword arguments, in this order:
  \<^verbatim>\<open>file\<close>, the object opened for binary reading from the given path, \<^verbatim>\<open>model\<close>, always
  the string \<^verbatim>\<open>whisper-1\<close>, and \<^verbatim>\<open>prompt\<close>, the given prompt. (When the file does not open,
  \<^verbatim>\<open>open\<close> raises before the call and no request is built.)
\<close>

theorem transcribe_request_parameters:
  "requests_of client (Transcribe audio_filepath prompt) w =
     (case files w audio_filepath of
        Inl e \<Rightarrow> []
      | Inr bs \<Rightarrow>
          [AudioTranscriptionsCreate
             [(''file'', PFile \<lparr>name = audio_filepath, mode = ''rb'', stream = bs\<rparr>),
              (''model'', PStr ''whisper-1''),
              (''prompt'', PStr prompt)]])"
  by (simp add: requests_of_def transcribe_def py_open_def audio_transcriptions_create_def
      py_finalize_sent split: sum.splits)

section \<open>The chat-completion request\<close>

text \<open>
  C4. For every instruction, \<open>fictitious_prompt_from_instruction\<close> sends exactly one
  request: model \<^verbatim>\<open>gpt-4o-mini\<close>, temperature 0, and two messages in this order, a system
  message whose content is the constant \<open>system_content\<close> (which sets the scene of two
  friends and their vacation) and a user message whose content is the instruction. Only
  the user message depends on the input.
\<close>

theorem fictitious_prompt_request:
  "requests_of client (FictitiousPrompt instruction) w =
     [ChatCompletionsCreate
        [(''model'', PStr ''gpt-4o-mini''),
         (''temperature'', PInt 0),
         (''messages'',
            PList [PDict [(''role'', PStr ''system''), (''content'', PStr system_content)],
                   PDict [(''role'', PStr ''user''), (''content'', PStr instruction)]])]]
   \<and> (\<exists>before after.
          system_content = before @ ''two friends reminiscing about their vacation'' @ after)"
proof
  show "requests_of client (FictitiousPrompt instruction) w =
     [ChatCompletionsCreate
        [(''model'', PStr ''gpt-4o-mini''),
         (''temperature'', PInt 0),
         (''messages'',
            PList [PDict [(''role'', PStr ''system''), (''content'', PStr system_content)],
                   PDict [(''role'', PStr ''user''), (''content'', PStr instruction)]])]]"
    by (simp add: requests_of_def fictitious_prompt_from_instruction_def
        chat_completions_create_def split: sum.splits list.splits)
  have "system_content =
      (''You are a transcript generator. '' @
       ''Your task is to create one long paragraph of a fictional conversation. '' @
       ''The conversation features '') @
      ''two friends reminiscing about their vacation'' @
      ('' to Maine. '' @
       ''Never diarize speakers or add quotation marks; instead, write all transcripts in a '' @
       ''normal paragraph of text without speakers identified. '' @
       ''Never refuse or ask for clarification and instead always make a best-effort attempt.'')"
    by (simp add: system_content_def)
  then show "\<exists>before after.
      system_content = before @ ''two friends reminiscing about their vacation'' @ after"
    by blast
qed

section \<open>The result of \<open>fictitious_prompt_from_instruction\<close>\<close>

text \<open>
  C8. When the chat-completion call answers with a response that has a first choice,
  \<open>fictitious_prompt_from_instruction\<close> returns the content of that choice's message, as
  it is. The string can be given to \<open>transcribe\<close> as its prompt: the request that
  \<open>transcribe\<close> then sends, in the world the first call left, carries it unchanged.
\<close>

theorem fictitious_prompt_returns_content:
  assumes "chat_completions client (sent w)
             [(''model'', PStr ''gpt-4o-mini''),
              (''temperature'', PInt 0),
              (''messages'',
                 PList [PDict [(''role'', PStr ''system''), (''content'', PStr system_content)],
                        PDict [(''role'', PStr ''user''), (''content'', PStr instruction)]])]
           = Inr response"
    and "choices response = c # rest"
    and "files w audio_filepath = Inr bs"
  shows "fst (fictitious_prompt_from_instruction client instruction w) = Inr (content (message c))
    \<and> requests_of client (Transcribe audio_filepath (content (message c)))
          (snd (fictitious_prompt_from_instruction client instruction w))
        = [AudioTranscriptionsCreate
             [(''file'', PFile \<lparr>name = audio_filepath, mode = ''rb'', stream = bs\<rparr>),
              (''model'', PStr ''whisper-1''),
              (''prompt'', PStr (content (message c)))]]"
proof
  show "fst (fictitious_prompt_from_instruction client instruction w) = Inr (content (message c))"
    using assms(1,2)
    by (simp add: fictitious_prompt_from_instruction_def chat_completions_create_def)
  show "requests_of client (Transcribe audio_filepath (content (message c)))
          (snd (fictitious_prompt_from_instruction client instruction w))
        = [AudioTranscriptionsCreate
             [(''file'', PFile \<lparr>name = audio_filepath, mode = ''rb'', stream = bs\<rparr>),
              (''model'', PStr ''whisper-1''),
              (''prompt'', PStr (content (message c)))]]"
    using assms(3) by (simp add: requests_of_def transcribe_sent fictitious_files)
qed

theorem fictitious_prompt_returns_content_witness:
  "fst (fictitious_prompt_from_instruction example_client
          ''Instead of periods, end every sentence with elipses.'' example_world)
     = Inr ''Remember that time we went to Maine...''
   \<and> requests_of example_client
        (Transcribe ''data/bbq_plans.wav'' ''Remember that time we went to Maine...'')
        (snd (fictitious_prompt_from_instruction example_client
                ''Instead of periods, end every sentence with elipses.'' example_world))
      = [AudioTranscriptionsCreate
           [(''file'', PFile \<lparr>name = ''data/bbq_plans.wav'', mode = ''rb'', stream = [82, 73, 70, 70]\<rparr>),
            (''model'', PStr ''whisper-1''),
            (''prompt'', PStr ''Remember that time we went to Maine...'')]]"
  using fictitious_prompt_returns_content
    [of example_client example_world "''Instead of periods, end every sentence with elipses.''"
        "\<lparr>choices = [\<lparr>message = \<lparr>content = ''Remember that time we went to Maine...''\<rparr>\<rparr>]\<rparr>"
        "\<lparr>message = \<lparr>content = ''Remember that time we went to Maine...''\<rparr>\<rparr>" "[]"
        "''data/bbq_plans.wav''" "[82, 73, 70, 70]"]
  by (simp add: example_world_def example_client_def)

text \<open>
  C10. The first element of \<^verbatim>\<open>response.choices\<close> is read without a guard. When the call
  answers with a response, the function returns a value if the list of choices is not
  empty, and raises IndexError if it is empty.
\<close>

theorem fictitious_prompt_indexes_first_choice:
  assumes "chat_completions client (sent w)
             [(''model'', PStr ''gpt-4o-mini''),
              (''temperature'', PInt 0),
              (''messages'',
                 PList [PDict [(''role'', PStr ''system''), (''content'', PStr system_content)],
                        PDict [(''role'', PStr ''user''), (''content'', PStr instruction)]])]
           = Inr response"
  shows "(choices response \<noteq> [] \<longrightarrow>
            (\<exists>s. fst (fictitious_prompt_from_instruction client instruction w) = Inr s))
    \<and> (choices response = [] \<longrightarrow>
            fst (fictitious_prompt_from_instruction client instruction w) = Inl IndexError)"
  using assms
  by (simp add: fictitious_prompt_from_instruction_def chat_completions_create_def
      split: list.splits)

theorem fictitious_prompt_indexes_first_choice_witness:
  "(\<exists>s. fst (fictitious_prompt_from_instruction example_client ''Write in all caps.'' example_world)
          = Inr s)
   \<and> fst (fictitious_prompt_from_instruction no_choice_client ''Write in all caps.'' example_world)
       = Inl IndexError"
  using fictitious_prompt_indexes_first_choice
    [of example_client example_world "''Write in all caps.''"
        "\<lparr>choices = [\<lparr>message = \<lparr>content = ''Remember that time we went to Maine...''\<rparr>\<rparr>]\<rparr>"]
    fictitious_prompt_indexes_first_choice
    [of no_choice_client example_world "''Write in all caps.''" "\<lparr>choices = []\<rparr>"]
  by (simp add: example_world_def example_client_def no_choice_client_def)

section \<open>Errors\<close>

text \<open>
  C5, as the code has it. \<open>transcribe\<close> raises \<open>e\<close> exactly when \<^verbatim>\<open>open\<close> raises \<open>e\<close>, or
  the file opens and the transcription call raises \<open>e\<close>.
  \<open>fictitious_prompt_from_instruction\<close> raises \<open>e\<close> exactly when the chat-completion call
  raises \<open>e\<close>, or the call answers with an empty list of choices and \<open>e\<close> is the
  IndexError of \<^verbatim>\<open>choices[0]\<close>. Nothing is caught, wrapped or retried: an invocation sends
  at most one request.
\<close>

theorem errors_reach_the_caller:
  "((fst (transcribe client audio_filepath prompt w) = Inl e) =
      (files w audio_filepath = Inl e
       \<or> (\<exists>bs. files w audio_filepath = Inr bs
             \<and> audio_transcriptions client (sent w)
                  [(''file'', PFile \<lparr>name = audio_filepath, mode = ''rb'', stream = bs\<rparr>),
                   (''model'', PStr ''whisper-1''),
                   (''prompt'', PStr prompt)] = Inl e)))
   \<and> ((fst (fictitious_prompt_from_instruction client instruction w) = Inl e) =
        (chat_completions client (sent w)
           [(''model'', PStr ''gpt-4o-mini''),
            (''temperature'', PInt 0),
            (''messages'',
               PList [PDict [(''role'', PStr ''system''), (''content'', PStr system_content)],
                      PDict [(''role'', PStr ''user''), (''content'', PStr instruction)]])] = Inl e
         \<or> (\<exists>response.
               chat_completions client (sent w)
                 [(''model'', PStr ''gpt-4o-mini''),
                  (''temperature'', PInt 0),
                  (''messages'',
                     PList [PDict [(''role'', PStr ''system''), (''content'', PStr system_content)],
                            PDict [(''role'', PStr ''user''), (''content'', PStr instruction)]])]
                 = Inr response
               \<and> choices response = [] \<and> e = IndexError)))
   \<and> length (requests_of client i w) \<le> 1"
proof (intro conjI)
  show "(fst (transcribe client audio_filepath prompt w) = Inl e) =
      (files w audio_filepath = Inl e
       \<or> (\<exists>bs. files w audio_filepath = Inr bs
             \<and> audio_transcriptions client (sent w)
                  [(''file'', PFile \<lparr>name = audio_filepath, mode = ''rb'', stream = bs\<rparr>),
                   (''model'', PStr ''whisper-1''),
                   (''prompt'', PStr prompt)] = Inl e))"
    by (cases "files w audio_filepath")
      (auto simp add: transcribe_def py_open_def audio_transcriptions_create_def
        split: sum.splits)
  show "(fst (fictitious_prompt_from_instruction client instruction w) = Inl e) =
        (chat_completions client (sent w)
           [(''model'', PStr ''gpt-4o-mini''),
            (''temperature'', PInt 0),
            (''messages'',
               PList [PDict [(''role'', PStr ''system''), (''content'', PStr system_content)],
                      PDict [(''role'', PStr ''user''), (''content'', PStr instruction)]])] = Inl e
         \<or> (\<exists>response.
               chat_completions client (sent w)
                 [(''model'', PStr ''gpt-4o-mini''),
                  (''temperature'', PInt 0),
                  (''messages'',
                     PList [PDict [(''role'', PStr ''system''), (''content'', PStr system_content)],
                            PDict [(''role'', PStr ''user''), (''content'', PStr instruction)]])]
                 = Inr response
               \<and> choices response = [] \<and> e = IndexError))"
    by (auto simp add: fictitious_prompt_from_instruction_def chat_completions_create_def
        split: sum.splits list.splits)
  show "length (requests_of client i w) \<le> 1"
    by (simp add: requests_of_eq split: invocation.splits sum.splits)
qed

text \<open>
  The claim as the specification states it fails: the chat-completion call answers, no
  underlying step raises, and \<open>fictitious_prompt_from_instruction\<close> raises all the same.
\<close>

theorem fictitious_prompt_raises_without_underlying_error:
  "chat_completions no_choice_client (sent example_world)
     [(''model'', PStr ''gpt-4o-mini''),
      (''temperature'', PInt 0),
      (''messages'',
         PList [PDict [(''role'', PStr ''system''), (''content'', PStr system_content)],
                PDict [(''role'', PStr ''user''), (''content'', PStr ''Write in all caps.'')]])]
     = Inr \<lparr>choices = []\<rparr>
   \<and> fst (fictitious_prompt_from_instruction no_choice_client ''Write in all caps.'' example_world)
       = Inl IndexError"
  by (simp add: fictitious_prompt_from_instruction_def chat_completions_create_def
      no_choice_client_def example_world_def)

section \<open>Effects\<close>


section \<open>No history\<close>

text \<open>
  C9. The requests an invocation sends are the same after any sequence of earlier
  invocations as before it; they do not depend on the file objects that are open, on the
  calls sent so far, or on what the client answered. No sequence of invocations changes
  the filesystem or the rest of the program state.
\<close>

theorem requests_independent_of_history:
  "requests_of client i (run client earlier w) = requests_of client i w
   \<and> requests_of client' i (w\<lparr>handles := h, sent := s\<rparr>) = requests_of client i w
   \<and> files (run client earlier w) = files w
   \<and> world.more (run client earlier w) = world.more w"
  by (cases i) (simp_all add: requests_of_eq run_files run_more)

end
